theory Spec2Isabelle
  imports Complex_Main
begin

section \<open>Numbers\<close>

text \<open>
  The program computes with numpy's 64-bit floats. The embedding keeps the special
  values that decide the program's branches (both infinities and NaN) and computes
  exactly on the finite values: \<open>Fin x\<close> is the float whose value is the real \<open>x\<close>.
  Rounding of finite results is not modelled, and zero has no sign: a nonzero finite
  value divided by zero is the infinity with the sign of the numerator.
\<close>

datatype fl = Fin real | PInf | MInf | NaN

fun fl_neg :: "fl \<Rightarrow> fl" where
  "fl_neg (Fin a) = Fin (- a)"
| "fl_neg PInf = MInf"
| "fl_neg MInf = PInf"
| "fl_neg NaN = NaN"

fun fl_add :: "fl \<Rightarrow> fl \<Rightarrow> fl" where
  "fl_add (Fin a) (Fin b) = Fin (a + b)"
| "fl_add (Fin a) PInf = PInf"
| "fl_add (Fin a) MInf = MInf"
| "fl_add PInf (Fin b) = PInf"
| "fl_add PInf PInf = PInf"
| "fl_add PInf MInf = NaN"
| "fl_add MInf (Fin b) = MInf"
| "fl_add MInf MInf = MInf"
| "fl_add MInf PInf = NaN"
| "fl_add NaN y = NaN"
| "fl_add x NaN = NaN"

definition inf_signed :: "real \<Rightarrow> fl" where
  "inf_signed a = (if a = 0 then NaN else if 0 < a then PInf else MInf)"

fun fl_mul :: "fl \<Rightarrow> fl \<Rightarrow> fl" where
  "fl_mul (Fin a) (Fin b) = Fin (a * b)"
| "fl_mul (Fin a) PInf = inf_signed a"
| "fl_mul (Fin a) MInf = inf_signed (- a)"
| "fl_mul PInf (Fin b) = inf_signed b"
| "fl_mul PInf PInf = PInf"
| "fl_mul PInf MInf = MInf"
| "fl_mul MInf (Fin b) = inf_signed (- b)"
| "fl_mul MInf MInf = PInf"
| "fl_mul MInf PInf = MInf"
| "fl_mul NaN y = NaN"
| "fl_mul x NaN = NaN"

fun fl_div :: "fl \<Rightarrow> fl \<Rightarrow> fl" where
  "fl_div (Fin a) (Fin b) = (if b = 0 then inf_signed a else Fin (a / b))"
| "fl_div (Fin a) PInf = Fin 0"
| "fl_div (Fin a) MInf = Fin 0"
| "fl_div PInf (Fin b) = (if 0 \<le> b then PInf else MInf)"
| "fl_div MInf (Fin b) = (if 0 \<le> b then MInf else PInf)"
| "fl_div PInf PInf = NaN"
| "fl_div PInf MInf = NaN"
| "fl_div MInf PInf = NaN"
| "fl_div MInf MInf = NaN"
| "fl_div NaN y = NaN"
| "fl_div x NaN = NaN"

text \<open>Comparisons: any comparison with NaN is false, \<open>==\<close> included.\<close>

fun fl_less :: "fl \<Rightarrow> fl \<Rightarrow> bool" where
  "fl_less (Fin a) (Fin b) = (a < b)"
| "fl_less (Fin a) PInf = True"
| "fl_less MInf (Fin b) = True"
| "fl_less MInf PInf = True"
| "fl_less x y = False"

fun fl_eq :: "fl \<Rightarrow> fl \<Rightarrow> bool" where
  "fl_eq (Fin a) (Fin b) = (a = b)"
| "fl_eq PInf PInf = True"
| "fl_eq MInf MInf = True"
| "fl_eq x y = False"

instantiation fl :: "{zero, one, plus, minus, uminus, times, inverse, ord}"
begin
definition "0 = Fin 0"
definition "1 = Fin 1"
definition "a + b = fl_add a b"
definition "a - b = fl_add a (fl_neg b)"
definition "- a = fl_neg a"
definition "a * b = fl_mul a b"
definition "divide a b = fl_div a (b::fl)"
definition "inverse a = fl_div (Fin 1) a"
definition "a < b = fl_less a b"
definition "a \<le> b = (fl_less a b \<or> fl_eq a b)"
instance ..
end

text \<open>Python's truth value of a float: every value but zero, NaN included.\<close>

definition truthy :: "fl \<Rightarrow> bool" where
  "truthy x = (x \<noteq> Fin 0)"

definition isnan :: "fl \<Rightarrow> bool" where
  "isnan x = (x = NaN)"

definition isfinite :: "fl \<Rightarrow> bool" where
  "isfinite x = (case x of Fin a \<Rightarrow> True | _ \<Rightarrow> False)"

text \<open>\<open>np.floor\<close>, and \<open>np.round\<close>, which rounds a half to the even neighbour.\<close>

fun fl_floor :: "fl \<Rightarrow> fl" where
  "fl_floor (Fin a) = Fin (of_int \<lfloor>a\<rfloor>)"
| "fl_floor x = x"

definition round_half_even :: "real \<Rightarrow> int" where
  "round_half_even a =
     (let n = \<lfloor>a\<rfloor>; d = a - of_int n
      in if d < 1 / 2 then n else if 1 / 2 < d then n + 1
         else if even n then n else n + 1)"

fun fl_round :: "fl \<Rightarrow> fl" where
  "fl_round (Fin a) = Fin (of_int (round_half_even a))"
| "fl_round x = x"

fun fl_cos :: "fl \<Rightarrow> fl" where
  "fl_cos (Fin a) = Fin (cos a)"
| "fl_cos x = NaN"

fun fl_sin :: "fl \<Rightarrow> fl" where
  "fl_sin (Fin a) = Fin (sin a)"
| "fl_sin x = NaN"

definition deg2rad :: "fl \<Rightarrow> fl" where
  "deg2rad x = x * Fin (pi / 180)"

text \<open>\<open>np.mean\<close> of a one-dimensional array; of an empty array it is NaN.\<close>

definition fl_sum :: "fl list \<Rightarrow> fl" where
  "fl_sum xs = foldl (+) (Fin 0) xs"

definition mean :: "fl list \<Rightarrow> fl" where
  "mean xs = fl_sum xs / Fin (real (length xs))"

section \<open>Errors\<close>

text \<open>
  The exceptions the modelled code raises are \<open>ValueError\<close> and \<open>IndexError\<close>, with
  their messages (written without the backquotes of the source). A call that may raise
  returns \<open>Inl\<close> of the error or \<open>Inr\<close> of its result; \<open>and_then\<close> runs
  a second call on the result of a first one that did not raise.
\<close>

datatype error = ValueError string | IndexError string

definition and_then :: "error + 'a \<Rightarrow> ('a \<Rightarrow> error + 'b) \<Rightarrow> error + 'b" where
  "and_then r g = (case r of Inl e \<Rightarrow> Inl e | Inr x \<Rightarrow> g x)"

section \<open>Camera (image.py)\<close>

text \<open>
  A camera is its 20-element \<open>vector\<close>, the copy \<open>original_vector\<close> taken when it was
  built, and the optional sensor size. The attributes \<open>xyz\<close>, \<open>viewdir\<close>, \<open>imgsz\<close>,
  \<open>f\<close>, \<open>c\<close>, \<open>k\<close>, \<open>p\<close> are the slices 0:3, 3:6, 6:8, 8:10, 10:12, 12:18, 18:20 of
  the vector; reading one is \<open>slice\<close>, assigning one is \<open>set_slice\<close>. The getters carry
  the suffix \<open>_of\<close>, since one-letter constants would capture the variables of every
  statement.
\<close>

record camera =
  vector :: "fl list"
  original_vector :: "fl list"
  sensorsz :: "(fl \<times> fl) option"

definition slice :: "nat \<Rightarrow> nat \<Rightarrow> 'a list \<Rightarrow> 'a list" where
  "slice a b xs = take (b - a) (drop a xs)"

definition set_slice :: "nat \<Rightarrow> nat \<Rightarrow> 'a list \<Rightarrow> 'a list \<Rightarrow> 'a list" where
  "set_slice a b vs xs = take a xs @ vs @ drop b xs"

definition xyz_of :: "camera \<Rightarrow> fl list" where "xyz_of cam = slice 0 3 (vector cam)"
definition viewdir_of :: "camera \<Rightarrow> fl list" where "viewdir_of cam = slice 3 6 (vector cam)"
definition imgsz_of :: "camera \<Rightarrow> fl list" where "imgsz_of cam = slice 6 8 (vector cam)"
definition f_of :: "camera \<Rightarrow> fl list" where "f_of cam = slice 8 10 (vector cam)"
definition c_of :: "camera \<Rightarrow> fl list" where "c_of cam = slice 10 12 (vector cam)"
definition k_of :: "camera \<Rightarrow> fl list" where "k_of cam = slice 12 18 (vector cam)"
definition p_of :: "camera \<Rightarrow> fl list" where "p_of cam = slice 18 20 (vector cam)"

definition original_imgsz :: "camera \<Rightarrow> fl list" where
  "original_imgsz cam = slice 6 8 (original_vector cam)"

definition set_imgsz :: "fl list \<Rightarrow> camera \<Rightarrow> camera" where
  "set_imgsz v cam = cam\<lparr>vector := set_slice 6 8 v (vector cam)\<rparr>"
definition set_f :: "fl list \<Rightarrow> camera \<Rightarrow> camera" where
  "set_f v cam = cam\<lparr>vector := set_slice 8 10 v (vector cam)\<rparr>"
definition set_c :: "fl list \<Rightarrow> camera \<Rightarrow> camera" where
  "set_c v cam = cam\<lparr>vector := set_slice 10 12 v (vector cam)\<rparr>"

text \<open>
  \<open>Camera.__init__\<close> without \<open>vector\<close>, \<open>sensorsz\<close>, \<open>fmm\<close>, \<open>cmm\<close>: the seven
  attributes are assigned to their slices of a fresh vector, and the vector is
  copied to \<open>original_vector\<close>. The arguments are the values after
  \<open>helpers.format_list\<close> has brought them to the lengths 3, 3, 2, 2, 2, 6, 2.
\<close>

definition Camera :: "fl list \<Rightarrow> fl list \<Rightarrow> fl list \<Rightarrow> fl list \<Rightarrow> fl list \<Rightarrow> fl list
    \<Rightarrow> fl list \<Rightarrow> camera" where
  "Camera xyz viewdir imgsz f c k p =
     (let v = set_slice 18 20 p (set_slice 12 18 k (set_slice 10 12 c (set_slice 8 10 f
               (set_slice 6 8 imgsz (set_slice 3 6 viewdir (set_slice 0 3 xyz
                 (replicate 20 NaN)))))))
      in \<lparr>vector = v, original_vector = v, sensorsz = None\<rparr>)"

text \<open>The constructor's defaults, but for \<open>imgsz\<close> and \<open>f\<close>.\<close>

definition Camera_default :: "fl list \<Rightarrow> fl list \<Rightarrow> camera" where
  "Camera_default imgsz f =
     Camera [Fin 0, Fin 0, Fin 0] [Fin 0, Fin 0, Fin 0] imgsz f [Fin 0, Fin 0]
       [Fin 0, Fin 0, Fin 0, Fin 0, Fin 0, Fin 0] [Fin 0, Fin 0]"

text \<open>
  Arrays of points are lists of rows; a row of world coordinates is a triple and a row
  of image or camera coordinates a pair. numpy applies the private methods
  (\<open>_world2camera\<close>, \<open>_camera2image\<close>, \<open>_distort\<close>, ...) to every row of the array
  independently; they are modelled on one row, and \<open>project\<close> and \<open>invproject\<close> map
  them over the array.
\<close>

type_synonym vec3 = "fl \<times> fl \<times> fl"
type_synonym vec2 = "fl \<times> fl"

text \<open>The rotation matrix \<open>Camera.R\<close>, as its three rows.\<close>

definition R_of :: "camera \<Rightarrow> vec3 \<times> vec3 \<times> vec3" where
  "R_of cam =
     (let radians = map deg2rad (viewdir_of cam);
          C = map fl_cos radians;
          S = map fl_sin radians
      in ((C ! 0 * C ! 2 + S ! 0 * S ! 1 * S ! 2, C ! 0 * S ! 1 * S ! 2 - C ! 2 * S ! 0, - (C ! 1) * S ! 2),
          (C ! 2 * S ! 0 * S ! 1 - C ! 0 * S ! 2, S ! 0 * S ! 2 + C ! 0 * C ! 2 * S ! 1, - (C ! 1) * C ! 2),
          (C ! 1 * S ! 0, C ! 0 * C ! 1, S ! 1)))"

definition dot3 :: "vec3 \<Rightarrow> vec3 \<Rightarrow> fl" where
  "dot3 a b = (case a of (a0, a1, a2) \<Rightarrow> case b of (b0, b1, b2) \<Rightarrow> a0 * b0 + a1 * b1 + a2 * b2)"

text \<open>
  \<open>Camera._world2camera\<close> on one row, with the depth it returns under
  \<open>return_depth=True\<close>. \<open>correction\<close> is \<open>None\<close> for no elevation correction, or the
  function of the squared horizontal distance that \<open>helpers.elevation_corrections\<close>
  (not part of the sources) computes. Both settings of \<open>config._UseMatMul\<close> compute the
  product of \<open>R\<close> with the row.
\<close>

definition world2camera :: "camera \<Rightarrow> vec3 \<Rightarrow> bool \<Rightarrow> (fl \<Rightarrow> fl) option \<Rightarrow> vec2 \<times> fl" where
  "world2camera cam xyz directions correction =
     (let dxyz =
        (if directions then xyz
         else (case xyz of (x, y, z) \<Rightarrow>
           let dx = x - xyz_of cam ! 0; dy = y - xyz_of cam ! 1; dz = z - xyz_of cam ! 2
           in (case correction of
                 None \<Rightarrow> (dx, dy, dz)
               | Some elevation_corrections \<Rightarrow>
                   (dx, dy, dz + elevation_corrections (dx * dx + dy * dy)))))
      in (case R_of cam of (r0, r1, r2) \<Rightarrow>
        let xc = dot3 dxyz r0; yc = dot3 dxyz r1; zc = dot3 dxyz r2;
            xy = (xc / zc, yc / zc);
            behind = (zc \<le> Fin 0)
        in (if behind then (NaN, NaN) else xy, zc)))"

definition radial_distortion :: "camera \<Rightarrow> fl \<Rightarrow> fl" where
  "radial_distortion cam r2 =
     (let k = k_of cam;
          dr = Fin 1;
          dr = (if truthy (k ! 0) then dr + k ! 0 * r2 else dr);
          dr = (if truthy (k ! 1) then dr + k ! 1 * r2 * r2 else dr);
          dr = (if truthy (k ! 2) then dr + k ! 2 * r2 * r2 * r2 else dr)
      in if list_ex truthy (slice 3 6 k) then
           (let temp = Fin 1;
                temp = (if truthy (k ! 3) then temp + k ! 3 * r2 else temp);
                temp = (if truthy (k ! 4) then temp + k ! 4 * r2 * r2 else temp);
                temp = (if truthy (k ! 5) then temp + k ! 5 * r2 * r2 * r2 else temp)
            in dr / temp)
         else dr)"

definition tangential_distortion :: "camera \<Rightarrow> vec2 \<Rightarrow> fl \<Rightarrow> vec2" where
  "tangential_distortion cam xy r2 =
     (case xy of (x, y) \<Rightarrow>
        let p = p_of cam;
            xty = x * y;
            dtx = Fin 2 * xty * p ! 0 + p ! 1 * (r2 + Fin 2 * (x * x));
            dty = p ! 0 * (r2 + Fin 2 * (y * y)) + Fin 2 * xty * p ! 1
        in (dtx, dty))"

definition distort :: "camera \<Rightarrow> vec2 \<Rightarrow> vec2" where
  "distort cam xy =
     (if \<not> list_ex truthy (k_of cam) \<and> \<not> list_ex truthy (p_of cam) then xy
      else (case xy of (x, y) \<Rightarrow>
        let r2 = x * x + y * y;
            dxy = (if list_ex truthy (k_of cam)
                   then (x * radial_distortion cam r2, y * radial_distortion cam r2)
                   else (x, y))
        in if list_ex truthy (p_of cam)
           then (fst dxy + fst (tangential_distortion cam xy r2),
                 snd dxy + snd (tangential_distortion cam xy r2))
           else dxy))"


definition camera2image :: "camera \<Rightarrow> vec2 \<Rightarrow> vec2" where
  "camera2image cam xy =
     (case distort cam xy of (x, y) \<Rightarrow>
        (x * f_of cam ! 0 + (imgsz_of cam ! 0 / Fin 2 + c_of cam ! 0),
         y * f_of cam ! 1 + (imgsz_of cam ! 1 / Fin 2 + c_of cam ! 1)))"



text \<open>\<open>Camera.project\<close>, without and with \<open>return_depth\<close>, and \<open>Camera.invproject\<close>.\<close>

definition project :: "camera \<Rightarrow> vec3 list \<Rightarrow> bool \<Rightarrow> (fl \<Rightarrow> fl) option \<Rightarrow> vec2 list" where
  "project cam xyz directions correction =
     map (\<lambda>row. camera2image cam (fst (world2camera cam row directions correction))) xyz"



text \<open>
  \<open>Camera.get_scale_from_size\<close>; \<open>minimize\<close> stands for \<open>scipy.optimize.minimize\<close> and
  returns the minimiser it finds for the error function, the start value and the
  bounds, or the error it raises (a \<open>ValueError\<close> when the lower bound lies above the
  upper one).
\<close>

fun fl_abs :: "fl \<Rightarrow> fl" where
  "fl_abs (Fin a) = Fin \<bar>a\<bar>"
| "fl_abs PInf = PInf"
| "fl_abs MInf = PInf"
| "fl_abs NaN = NaN"

definition get_scale_from_size :: "((fl \<Rightarrow> fl) \<Rightarrow> fl \<Rightarrow> fl list \<Rightarrow> error + fl) \<Rightarrow> fl list
    \<Rightarrow> fl list \<Rightarrow> error + fl option" where
  "get_scale_from_size minimize old_size new_size =
     (if list_all2 fl_eq new_size old_size then Inr (Some (Fin 1))
      else
        let scale_bounds = map2 (/) new_size old_size
        in if fl_eq (scale_bounds ! 0) (scale_bounds ! 1) then Inr (Some (scale_bounds ! 0))
           else
             let err = (\<lambda>scale. fl_sum (map2 (\<lambda>old new.
                          fl_abs (fl_floor (scale * old + Fin (1 / 2)) - new)) old_size new_size))
             in case minimize err (mean scale_bounds) scale_bounds of
                  Inl e \<Rightarrow> Inl e
                | Inr x \<Rightarrow> if fl_eq (err x) (Fin 0) then Inr (Some x) else Inr None)"

text \<open>
  \<open>Camera.resize(size, force)\<close>. \<open>size\<close> is a scale factor or a target size of two
  numbers. The camera is changed in place; the model returns the changed camera, or
  the error raised before any change.
\<close>

datatype size_arg = Scale fl | Target fl fl

definition resize :: "((fl \<Rightarrow> fl) \<Rightarrow> fl \<Rightarrow> fl list \<Rightarrow> error + fl) \<Rightarrow> size_arg \<Rightarrow> bool
    \<Rightarrow> camera \<Rightarrow> error + camera" where
  "resize minimize sz force cam =
     (let new_size =
        (case sz of
           Target w h \<Rightarrow>
             if force then Inr [w, h]
             else (case get_scale_from_size minimize (original_imgsz cam) [w, h] of
                     Inl e \<Rightarrow> Inl e
                   | Inr None \<Rightarrow>
                       Inl (ValueError ''Target size does not preserve original aspect ratio'')
                   | Inr (Some scale) \<Rightarrow>
                       Inr (map (\<lambda>old. fl_floor (scale * old + Fin (1 / 2))) (original_imgsz cam)))
         | Scale scale \<Rightarrow>
             Inr (map (\<lambda>old. fl_floor (scale * old + Fin (1 / 2))) (original_imgsz cam)))
      in case new_size of
           Inl e \<Rightarrow> Inl e
         | Inr new_size \<Rightarrow>
             let scale2d = map2 (/) new_size (imgsz_of cam);
                 cam = set_imgsz (map fl_round new_size) cam;
                 cam = set_f (map2 (*) (f_of cam) scale2d) cam;
                 cam = set_c (map2 (*) (c_of cam) scale2d) cam
             in Inr cam)"

text \<open>
  A stand-in for the minimiser in closed statements: it returns its start value. No
  statement below depends on it, since a scale factor never reaches the minimiser.
\<close>

definition minimize_x0 :: "(fl \<Rightarrow> fl) \<Rightarrow> fl \<Rightarrow> fl list \<Rightarrow> error + fl" where
  "minimize_x0 err x0 bounds = Inr x0"

text \<open>The camera of the examples: \<open>Camera(imgsz=(100, 100), f=(100, 100))\<close>.\<close>

definition cam100 :: camera where
  "cam100 = Camera_default [Fin 100, Fin 100] [Fin 100, Fin 100]"

text \<open>
  The cameras of the counterexamples: one moved to \<open>(1, 0, 0)\<close>, and one with the
  radial coefficients \<open>k = (-1, 0, 0, -1, 0, 0)\<close>. \<open>solver_id\<close> stands in for the
  distortion solver, which a camera without distortion never calls.
\<close>

definition cam_east :: camera where
  "cam_east = Camera [Fin 1, Fin 0, Fin 0] [Fin 0, Fin 0, Fin 0] [Fin 100, Fin 100]
     [Fin 100, Fin 100] [Fin 0, Fin 0] [Fin 0, Fin 0, Fin 0, Fin 0, Fin 0, Fin 0] [Fin 0, Fin 0]"

definition cam_radial :: camera where
  "cam_radial = Camera [Fin 0, Fin 0, Fin 0] [Fin 0, Fin 0, Fin 0] [Fin 100, Fin 100]
     [Fin 100, Fin 100] [Fin 0, Fin 0] [Fin (- 1), Fin 0, Fin 0, Fin (- 1), Fin 0, Fin 0]
     [Fin 0, Fin 0]"



section \<open>Correspondences (optimize.py)\<close>

text \<open>
  Cameras are objects that correspondences and the bundle adjuster share and the
  adjuster changes in place. The store maps the address of a camera object to its
  present state; a correspondence holds the address of its camera.
\<close>

type_synonym store = "nat \<Rightarrow> camera"

text \<open>
  \<open>array[index]\<close>: all rows for the index \<open>None\<close>, the rows at the positions of an
  index array otherwise, which raises when a position is out of bounds. Slices,
  negative positions and boolean masks are not modelled.
\<close>

definition getitem :: "'a list \<Rightarrow> nat list option \<Rightarrow> error + 'a list" where
  "getitem xs index =
     (case index of
        None \<Rightarrow> Inr xs
      | Some idx \<Rightarrow>
          if list_all (\<lambda>j. j < length xs) idx then Inr (map ((!) xs) idx)
          else Inl (IndexError ''index is out of bounds''))"

definition moved_error :: error where
  "moved_error = ValueError ''Camera has changed position (xyz) and directions=True''"

subsection \<open>Points\<close>

record points =
  pts_cam :: nat
  pts_uv :: "vec2 list"
  pts_xyz :: "vec3 list"
  pts_directions :: bool
  pts_correction :: "(fl \<Rightarrow> fl) option"
  pts_cam_xyz :: "fl list"
  pts_imgsz :: "fl list"

text \<open>\<open>Points.__init__\<close>, in the store \<open>st\<close> of the time of the call.\<close>

definition Points :: "store \<Rightarrow> nat \<Rightarrow> vec2 list \<Rightarrow> vec3 list \<Rightarrow> bool \<Rightarrow> (fl \<Rightarrow> fl) option
    \<Rightarrow> error + points" where
  "Points st cam uv xyz directions correction =
     (if length uv \<noteq> length xyz
      then Inl (ValueError ''uv and xyz have different number of rows'')
      else Inr \<lparr>pts_cam = cam, pts_uv = uv, pts_xyz = xyz, pts_directions = directions,
                pts_correction = correction, pts_cam_xyz = xyz_of (st cam),
                pts_imgsz = imgsz_of (st cam)\<rparr>)"

definition Points_size :: "points \<Rightarrow> nat" where
  "Points_size pts = length (pts_uv pts)"

definition Points_observed :: "points \<Rightarrow> nat list option \<Rightarrow> error + vec2 list" where
  "Points_observed pts index = getitem (pts_uv pts) index"

text \<open>\<open>(self.cam.xyz == self.cam_xyz).all()\<close>\<close>

definition Points_is_static :: "store \<Rightarrow> points \<Rightarrow> bool" where
  "Points_is_static st pts = list_all2 fl_eq (xyz_of (st (pts_cam pts))) (pts_cam_xyz pts)"

definition Points_predicted :: "store \<Rightarrow> points \<Rightarrow> nat list option \<Rightarrow> error + vec2 list" where
  "Points_predicted st pts index =
     (if pts_directions pts \<and> \<not> Points_is_static st pts then Inl moved_error
      else and_then (getitem (pts_xyz pts) index)
             (\<lambda>rows. Inr (project (st (pts_cam pts)) rows (pts_directions pts)
                             (pts_correction pts))))"

subsection \<open>Lines\<close>

text \<open>
  The module \<open>helpers\<close> is not part of the sources; the functions of it that \<open>Lines\<close>
  calls are parameters, taken to return without raising. \<open>boolean_split\<close> is called
  with \<open>include='false'\<close>. \<open>view_box\<close> stands for the box \<open>xy_box\<close> that
  \<open>Lines.project\<close> computes from \<open>cam.edges\<close>, and that only \<open>clip_polyline_box\<close>
  reads.
\<close>

record helpers =
  interpolate_line :: "vec2 list \<Rightarrow> fl \<Rightarrow> vec2 list"
  boolean_split :: "vec2 list \<Rightarrow> bool list \<Rightarrow> vec2 list list"
  clip_polyline_box :: "vec2 list \<Rightarrow> fl list \<Rightarrow> vec2 list list"
  pairwise_distance :: "vec2 list \<Rightarrow> vec2 list \<Rightarrow> fl list list"
  view_box :: "camera \<Rightarrow> fl list"

record lines =
  lns_cam :: nat
  lns_uvs :: "vec2 list list"
  lns_step :: "fl option"
  lns_uvi :: "vec2 list"
  lns_xyzs :: "vec3 list list"
  lns_directions :: bool
  lns_correction :: "(fl \<Rightarrow> fl) option"
  lns_cam_xyz :: "fl list"
  lns_imgsz :: "fl list"

text \<open>\<open>np.vstack\<close> and \<open>np.row_stack\<close> of a list of arrays raise on the empty list.\<close>

definition vstack :: "'a list list \<Rightarrow> error + 'a list" where
  "vstack arrays =
     (if arrays = [] then Inl (ValueError ''need at least one array to concatenate'')
      else Inr (concat arrays))"

definition Lines :: "helpers \<Rightarrow> store \<Rightarrow> nat \<Rightarrow> vec2 list list \<Rightarrow> vec3 list list \<Rightarrow> bool
    \<Rightarrow> (fl \<Rightarrow> fl) option \<Rightarrow> fl option \<Rightarrow> error + lines" where
  "Lines h st cam uvs xyzs directions correction step =
     and_then
       (case step of
          None \<Rightarrow> vstack uvs
        | Some dx \<Rightarrow>
            if truthy dx then vstack (map (\<lambda>uv. interpolate_line h uv dx) uvs)
            else vstack uvs)
       (\<lambda>uvi. Inr \<lparr>lns_cam = cam, lns_uvs = uvs, lns_step = step, lns_uvi = uvi,
                     lns_xyzs = xyzs, lns_directions = directions,
                     lns_correction = correction, lns_cam_xyz = xyz_of (st cam),
                     lns_imgsz = imgsz_of (st cam)\<rparr>)"

definition Lines_size :: "lines \<Rightarrow> nat" where
  "Lines_size lns = length (lns_uvi lns)"

definition Lines_observed :: "lines \<Rightarrow> nat list option \<Rightarrow> error + vec2 list" where
  "Lines_observed lns index = getitem (lns_uvi lns) index"

definition Lines_is_static :: "store \<Rightarrow> lines \<Rightarrow> bool" where
  "Lines_is_static st lns = list_all2 fl_eq (xyz_of (st (lns_cam lns))) (lns_cam_xyz lns)"

text \<open>
  \<open>Lines.project\<close>: the world lines are projected to camera coordinates, split at the
  points behind the camera, clipped, interpolated and projected to the image; when
  nothing is left, the split lines are projected as they are.
\<close>

definition Lines_project :: "helpers \<Rightarrow> store \<Rightarrow> lines \<Rightarrow> error + vec2 list list" where
  "Lines_project h st lns =
     (if lns_directions lns \<and> \<not> Lines_is_static st lns then Inl moved_error
      else
        let cam = st (lns_cam lns);
            xy_step = Fin 1 / mean (f_of cam);
            xy_box = view_box h cam;
            per_line = map (\<lambda>xyz.
              let xy = map (\<lambda>row. fst (world2camera cam row (lns_directions lns)
                                           (lns_correction lns))) xyz;
                  split = boolean_split h xy (map (\<lambda>row. isnan (fst row)) xy)
              in (split,
                  concat (map (\<lambda>line. map (\<lambda>cline.
                      map (camera2image cam) (interpolate_line h cline xy_step))
                    (clip_polyline_box h line xy_box)) split))) (lns_xyzs lns);
            inlines = concat (map fst per_line);
            puvs = concat (map snd per_line)
        in Inr (if puvs \<noteq> [] then puvs else map (map (camera2image cam)) inlines))"

text \<open>\<open>np.argmin\<close> of a row: the first position of the least value, or of the first NaN.\<close>

fun argmin_from :: "nat \<Rightarrow> fl \<Rightarrow> nat \<Rightarrow> fl list \<Rightarrow> nat" where
  "argmin_from best least j [] = best"
| "argmin_from best least j (x # xs) =
     (if \<not> isnan least \<and> (isnan x \<or> x < least) then argmin_from j x (j + 1) xs
      else argmin_from best least (j + 1) xs)"

definition argmin :: "fl list \<Rightarrow> nat" where
  "argmin xs = (case xs of [] \<Rightarrow> 0 | x # rest \<Rightarrow> argmin_from 0 x 1 rest)"

definition Lines_predicted :: "helpers \<Rightarrow> store \<Rightarrow> lines \<Rightarrow> nat list option
    \<Rightarrow> error + vec2 list" where
  "Lines_predicted h st lns index =
     and_then (Lines_project h st lns) (\<lambda>puvs.
     and_then (vstack puvs) (\<lambda>puv.
     and_then (Lines_observed lns index) (\<lambda>obs.
       let distances = pairwise_distance h obs puv
       in if puv = [] then Inl (ValueError ''attempt to get argmin of an empty sequence'')
          else getitem puv (Some (map argmin distances)))))"

text \<open>
  Stand-ins for the helpers in closed statements, and the store of the examples, which
  holds the camera \<open>cam100\<close> at every address.
\<close>

definition helpers_plain :: helpers where
  "helpers_plain =
     \<lparr>interpolate_line = (\<lambda>line dx. line),
      boolean_split = (\<lambda>xy mask. [xy]),
      clip_polyline_box = (\<lambda>line box. [line]),
      pairwise_distance = (\<lambda>a b. map (\<lambda>x. map (\<lambda>y. Fin 0) b) a),
      view_box = (\<lambda>cam. [])\<rparr>"

definition store100 :: store where
  "store100 = (\<lambda>address. cam100)"

section \<open>RANSAC (optimize.py)\<close>

text \<open>
  \<open>ransac\<close> takes any object with the methods \<open>data_size()\<close>, \<open>fit(index)\<close> and
  \<open>errors(params, index)\<close>; the record holds the three as functions. \<open>fit\<close> returns
  \<open>None\<close> when it fails; the index of \<open>errors\<close> is \<open>None\<close> when the call leaves it
  out. Sizes and counts are Python integers.
\<close>

record 'p model =
  model_data_size :: nat
  model_fit :: "nat list \<Rightarrow> 'p option"
  model_errors :: "'p \<Rightarrow> nat list option \<Rightarrow> fl list"

text \<open>The slices \<open>xs[:k]\<close> and \<open>xs[k:]\<close>; a negative \<open>k\<close> counts from the end.\<close>

definition py_take :: "int \<Rightarrow> 'a list \<Rightarrow> 'a list" where
  "py_take k xs = (if 0 \<le> k then take (nat k) xs else take (length xs - nat (- k)) xs)"

definition py_drop :: "int \<Rightarrow> 'a list \<Rightarrow> 'a list" where
  "py_drop k xs = (if 0 \<le> k then drop (nat k) xs else drop (length xs - nat (- k)) xs)"

text \<open>
  \<open>ransac_sample\<close>. \<open>indices\<close> is \<open>np.arange(data_size)\<close> after \<open>np.random.shuffle\<close>:
  the random order is an argument of the model.
\<close>

definition ransac_sample :: "int \<Rightarrow> nat \<Rightarrow> nat list \<Rightarrow> error + nat list \<times> nat list" where
  "ransac_sample sample_size data_size indices =
     (if int data_size \<le> sample_size
      then Inl (ValueError ''sample_size is larger or equal to data_size'')
      else Inr (py_take sample_size indices, py_drop sample_size indices))"

text \<open>
  \<open>index[errs < bound]\<close>, which raises when the mask \<open>errs < bound\<close> has another
  length than \<open>index\<close>, and \<open>np.where(errs <= bound)[0]\<close>.
\<close>

definition select_less :: "nat list \<Rightarrow> fl list \<Rightarrow> fl \<Rightarrow> error + nat list" where
  "select_less index errs bound =
     (if length errs \<noteq> length index
      then Inl (IndexError ''boolean index did not match indexed array'')
      else Inr (map fst (filter (\<lambda>(j, e). e < bound) (zip index errs))))"

definition where_le :: "fl list \<Rightarrow> fl \<Rightarrow> nat list" where
  "where_le errs bound = filter (\<lambda>j. errs ! j \<le> bound) [0..<length errs]"

text \<open>
  The \<open>while\<close> loop of \<open>ransac\<close>, for the arguments \<open>(sample_size, max_error,
  min_inliers, iterations)\<close>. Its state is the loop counter \<open>i\<close> and the variables
  \<open>params\<close>, \<open>err\<close> and \<open>inlier_idx\<close>; \<open>t\<close> counts the samples drawn, and \<open>shuffle t\<close> is
  the order the \<open>t\<close>-th draw shuffles the indices into. The two \<open>continue\<close> statements
  go back to the loop test without passing \<open>i += 1\<close>. The loop may run forever: the
  result \<open>None\<close> of the model is the run that never leaves the loop.
\<close>

partial_function (option) ransac_loop ::
  "'p model \<Rightarrow> (nat \<Rightarrow> nat list) \<Rightarrow> int \<times> fl \<times> int \<times> int
     \<Rightarrow> nat \<times> int \<times> 'p option \<times> fl \<times> nat list option
     \<Rightarrow> (error + nat \<times> 'p option \<times> fl \<times> nat list option) option" where
  "ransac_loop M shuffle args state =
     (case args of (sample_size, max_error, min_inliers, iterations) \<Rightarrow>
      case state of (t, i, params, err, inlier_idx) \<Rightarrow>
      if i < iterations then
        (case ransac_sample sample_size (model_data_size M) (shuffle t) of
           Inl e \<Rightarrow> Some (Inl e)
         | Inr (maybe_idx, test_idx) \<Rightarrow>
             (case model_fit M maybe_idx of
                None \<Rightarrow> ransac_loop M shuffle args (t + 1, i, params, err, inlier_idx)
              | Some maybe_params \<Rightarrow>
                  (case select_less test_idx (model_errors M maybe_params (Some test_idx))
                          max_error of
                     Inl e \<Rightarrow> Some (Inl e)
                   | Inr also_idx \<Rightarrow>
                       if min_inliers < int (length also_idx) then
                         (let better_idx = maybe_idx @ also_idx
                          in case model_fit M better_idx of
                               None \<Rightarrow>
                                 ransac_loop M shuffle args (t + 1, i, params, err, inlier_idx)
                             | Some better_params \<Rightarrow>
                                 (let better_errs = model_errors M better_params (Some better_idx);
                                      this_err = mean better_errs
                                  in if this_err < err then
                                       ransac_loop M shuffle args
                                         (t + 1, i + 1, Some better_params, this_err, Some better_idx)
                                     else
                                       ransac_loop M shuffle args
                                         (t + 1, i + 1, params, err, inlier_idx)))
                       else ransac_loop M shuffle args (t + 1, i + 1, params, err, inlier_idx))))
      else Some (Inr (t, params, err, inlier_idx)))"

text \<open>
  \<open>ransac\<close>: the loop from \<open>i = 0\<close>, \<open>params = None\<close>, \<open>err = np.inf\<close>, then the error
  when no parameters were kept, or the parameters with the inliers of a final pass
  over all the data.
\<close>

definition ransac :: "'p model \<Rightarrow> (nat \<Rightarrow> nat list) \<Rightarrow> int \<Rightarrow> fl \<Rightarrow> int \<Rightarrow> int
    \<Rightarrow> (error + 'p \<times> nat list) option" where
  "ransac M shuffle sample_size max_error min_inliers iterations =
     (case ransac_loop M shuffle (sample_size, max_error, min_inliers, iterations)
             (0, 0, None, PInf, None) of
        None \<Rightarrow> None
      | Some (Inl e) \<Rightarrow> Some (Inl e)
      | Some (Inr (t, params, err, inlier_idx)) \<Rightarrow>
          (case params of
             None \<Rightarrow> Some (Inl (ValueError ''Best fit does not meet acceptance criteria''))
           | Some p \<Rightarrow> Some (Inr (p, where_le (model_errors M p None) max_error))))"









text \<open>
  The models of the examples, over five data points, with a number as parameters:
  one whose \<open>fit\<close> always fails, and one whose \<open>fit\<close> returns the number of points it
  was given and whose errors are all zero.
\<close>

definition model_never_fits :: "nat model" where
  "model_never_fits =
     \<lparr>model_data_size = 5, model_fit = (\<lambda>index. None), model_errors = (\<lambda>p index. [])\<rparr>"


definition shuffle_id :: "nat \<Rightarrow> nat list" where
  "shuffle_id t = [0, 1, 2, 3, 4]"
section \<open>Properties of the camera\<close>

lemmas fl_arith = zero_fl_def one_fl_def plus_fl_def minus_fl_def uminus_fl_def
  times_fl_def divide_fl_def inverse_fl_def less_fl_def less_eq_fl_def

lemma Camera_vector:
  "vector (Camera [x0, x1, x2] [v0, v1, v2] [w, h] [fx, fy] [cx, cy] [k0, k1, k2, k3, k4, k5] [p0, p1])
   = [x0, x1, x2, v0, v1, v2, w, h, fx, fy, cx, cy, k0, k1, k2, k3, k4, k5, p0, p1]"
  by (simp add: Camera_def set_slice_def Let_def)

lemmas camera_getters = xyz_of_def viewdir_of_def imgsz_of_def f_of_def c_of_def k_of_def
  p_of_def original_imgsz_def slice_def

text \<open>
  C9. A camera built with \<open>imgsz = (100, 100)\<close>, \<open>f = (100, 100)\<close> and the default
  position, view direction, principal point and distortion projects the world point
  \<open>(0, 10, 0)\<close> to the image coordinates \<open>(50, 50)\<close>.
\<close>

theorem default_camera_projects_north_to_center:
  "project cam100 [(Fin 0, Fin 10, Fin 0)] False None = [(Fin 50, Fin 50)]"
  by (simp add: project_def world2camera_def camera2image_def distort_def R_of_def dot3_def
      deg2rad_def cam100_def Camera_default_def Camera_vector camera_getters fl_arith truthy_def Let_def)

subsection \<open>Resizing\<close>

lemma length20:
  "length (v::'a list) = 20 \<Longrightarrow>
   \<exists>x0 x1 x2 x3 x4 x5 x6 x7 x8 x9 x10 x11 x12 x13 x14 x15 x16 x17 x18 x19.
     v = [x0, x1, x2, x3, x4, x5, x6, x7, x8, x9, x10, x11, x12, x13, x14, x15, x16, x17, x18, x19]"
  by (simp add: eval_nat_numeral length_Suc_conv) blast

lemma round_half_even_of_int [simp]: "round_half_even (of_int n) = n"
  by (simp add: round_half_even_def)

lemma round_half_even_numeral [simp]: "round_half_even (numeral n) = numeral n"
  by (simp add: round_half_even_def)

lemma round_half_even_0 [simp]: "round_half_even 0 = 0"
  by (simp add: round_half_even_def)

lemma fl_mul_Fin_1 [simp]: "fl_mul x (Fin 1) = x"
  by (cases x) (simp_all add: inf_signed_def)

lemmas resize_unfold = resize_def and_then_def set_slice_def Let_def camera_getters
  set_imgsz_def set_f_def set_c_def fl_arith

lemma cam100_vector:
  "vector cam100 = [Fin 0, Fin 0, Fin 0, Fin 0, Fin 0, Fin 0, Fin 100, Fin 100, Fin 100, Fin 100,
     Fin 0, Fin 0, Fin 0, Fin 0, Fin 0, Fin 0, Fin 0, Fin 0, Fin 0, Fin 0]"
  "original_vector cam100 = vector cam100"
  by (simp_all add: cam100_def Camera_default_def Camera_def set_slice_def Let_def)

lemma fl_round_floor [simp]: "fl_round (fl_floor x) = fl_floor x"
  by (cases x) simp_all

lemma fl_div_self: "isfinite x \<Longrightarrow> x \<noteq> Fin 0 \<Longrightarrow> fl_div x x = Fin 1"
  by (cases x) (simp_all add: isfinite_def)

text \<open>
  One \<open>resize\<close> by a scale factor never raises. It sets \<open>imgsz\<close> to the new size, which
  it computes from the original size, and multiplies \<open>f\<close> and \<open>c\<close> by the new size
  over the size it found; everything else stays.
\<close>

lemma resize_scale:
  assumes "length (vector cam) = 20" "length (original_vector cam) = 20"
  shows "\<exists>cam1. resize m (Scale s) frc cam = Inr cam1
      \<and> length (vector cam1) = 20 \<and> original_vector cam1 = original_vector cam
      \<and> imgsz_of cam1 = map (\<lambda>old. fl_floor (s * old + Fin (1 / 2))) (original_imgsz cam)
      \<and> f_of cam1 = map2 (*) (f_of cam) (map2 (/) (imgsz_of cam1) (imgsz_of cam))
      \<and> c_of cam1 = map2 (*) (c_of cam) (map2 (/) (imgsz_of cam1) (imgsz_of cam))
      \<and> xyz_of cam1 = xyz_of cam \<and> viewdir_of cam1 = viewdir_of cam
      \<and> k_of cam1 = k_of cam \<and> p_of cam1 = p_of cam"
proof -
  from length20[OF assms(1)]
  obtain x0 x1 x2 x3 x4 x5 x6 x7 x8 x9 x10 x11 x12 x13 x14 x15 x16 x17 x18 x19 where
    v: "vector cam = [x0, x1, x2, x3, x4, x5, x6, x7, x8, x9, x10, x11, x12, x13, x14, x15,
          x16, x17, x18, x19]"
    by blast
  from length20[OF assms(2)]
  obtain y0 y1 y2 y3 y4 y5 y6 y7 y8 y9 y10 y11 y12 y13 y14 y15 y16 y17 y18 y19 where
    ov: "original_vector cam = [y0, y1, y2, y3, y4, y5, y6, y7, y8, y9, y10, y11, y12, y13,
          y14, y15, y16, y17, y18, y19]"
    by blast
  show ?thesis
    by (simp add: resize_unfold v ov)
qed

text \<open>
  C4, as amended. \<open>resize(2.0)\<close> followed by \<open>resize(0.5)\<close> raises nothing and ends
  with the image size that \<open>resize(0.5)\<close> alone sets: both compute it from the original
  size, not from the size before the calls. Each of the two calls multiplies \<open>f\<close> and
  \<open>c\<close> by the size it sets over the size it found. The camera has 20-element vectors.
\<close>

theorem resize_double_then_half:
  assumes "length (vector cam) = 20" "length (original_vector cam) = 20"
  shows "\<exists>cam1 cam2 cam3.
        resize m (Scale (Fin 2)) frc cam = Inr cam1
      \<and> resize m (Scale (Fin (1 / 2))) frc' cam1 = Inr cam2
      \<and> resize m (Scale (Fin (1 / 2))) frc' cam = Inr cam3
      \<and> imgsz_of cam2 = imgsz_of cam3
      \<and> f_of cam1 = map2 (*) (f_of cam) (map2 (/) (imgsz_of cam1) (imgsz_of cam))
      \<and> c_of cam1 = map2 (*) (c_of cam) (map2 (/) (imgsz_of cam1) (imgsz_of cam))
      \<and> f_of cam2 = map2 (*) (f_of cam1) (map2 (/) (imgsz_of cam2) (imgsz_of cam1))
      \<and> c_of cam2 = map2 (*) (c_of cam1) (map2 (/) (imgsz_of cam2) (imgsz_of cam1))"
proof -
  have "\<exists>cam1. resize m (Scale (Fin 2)) frc cam = Inr cam1
      \<and> length (vector cam1) = 20 \<and> original_vector cam1 = original_vector cam
      \<and> imgsz_of cam1 = map (\<lambda>old. fl_floor (Fin 2 * old + Fin (1 / 2))) (original_imgsz cam)
      \<and> f_of cam1 = map2 (*) (f_of cam) (map2 (/) (imgsz_of cam1) (imgsz_of cam))
      \<and> c_of cam1 = map2 (*) (c_of cam) (map2 (/) (imgsz_of cam1) (imgsz_of cam))
      \<and> xyz_of cam1 = xyz_of cam \<and> viewdir_of cam1 = viewdir_of cam
      \<and> k_of cam1 = k_of cam \<and> p_of cam1 = p_of cam"
    by (rule resize_scale[OF assms])
  then obtain cam1 where
    r1: "resize m (Scale (Fin 2)) frc cam = Inr cam1"
    and l1: "length (vector cam1) = 20"
    and o1: "original_vector cam1 = original_vector cam"
    and f1: "f_of cam1 = map2 (*) (f_of cam) (map2 (/) (imgsz_of cam1) (imgsz_of cam))"
    and c1: "c_of cam1 = map2 (*) (c_of cam) (map2 (/) (imgsz_of cam1) (imgsz_of cam))"
    by (elim exE conjE)
  from o1 assms(2) have lo1: "length (original_vector cam1) = 20" by simp
  have "\<exists>cam2. resize m (Scale (Fin (1 / 2))) frc' cam1 = Inr cam2
      \<and> length (vector cam2) = 20 \<and> original_vector cam2 = original_vector cam1
      \<and> imgsz_of cam2 = map (\<lambda>old. fl_floor (Fin (1 / 2) * old + Fin (1 / 2))) (original_imgsz cam1)
      \<and> f_of cam2 = map2 (*) (f_of cam1) (map2 (/) (imgsz_of cam2) (imgsz_of cam1))
      \<and> c_of cam2 = map2 (*) (c_of cam1) (map2 (/) (imgsz_of cam2) (imgsz_of cam1))
      \<and> xyz_of cam2 = xyz_of cam1 \<and> viewdir_of cam2 = viewdir_of cam1
      \<and> k_of cam2 = k_of cam1 \<and> p_of cam2 = p_of cam1"
    by (rule resize_scale[OF l1 lo1])
  then obtain cam2 where
    r2: "resize m (Scale (Fin (1 / 2))) frc' cam1 = Inr cam2"
    and i2: "imgsz_of cam2 = map (\<lambda>old. fl_floor (Fin (1 / 2) * old + Fin (1 / 2))) (original_imgsz cam1)"
    and f2: "f_of cam2 = map2 (*) (f_of cam1) (map2 (/) (imgsz_of cam2) (imgsz_of cam1))"
    and c2: "c_of cam2 = map2 (*) (c_of cam1) (map2 (/) (imgsz_of cam2) (imgsz_of cam1))"
    by (elim exE conjE)
  have "\<exists>cam3. resize m (Scale (Fin (1 / 2))) frc' cam = Inr cam3
      \<and> length (vector cam3) = 20 \<and> original_vector cam3 = original_vector cam
      \<and> imgsz_of cam3 = map (\<lambda>old. fl_floor (Fin (1 / 2) * old + Fin (1 / 2))) (original_imgsz cam)
      \<and> f_of cam3 = map2 (*) (f_of cam) (map2 (/) (imgsz_of cam3) (imgsz_of cam))
      \<and> c_of cam3 = map2 (*) (c_of cam) (map2 (/) (imgsz_of cam3) (imgsz_of cam))
      \<and> xyz_of cam3 = xyz_of cam \<and> viewdir_of cam3 = viewdir_of cam
      \<and> k_of cam3 = k_of cam \<and> p_of cam3 = p_of cam"
    by (rule resize_scale[OF assms])
  then obtain cam3 where
    r3: "resize m (Scale (Fin (1 / 2))) frc' cam = Inr cam3"
    and i3: "imgsz_of cam3 = map (\<lambda>old. fl_floor (Fin (1 / 2) * old + Fin (1 / 2))) (original_imgsz cam)"
    by (elim exE conjE)
  have "original_imgsz cam1 = original_imgsz cam"
    by (simp only: original_imgsz_def o1)
  then have e: "imgsz_of cam2 = imgsz_of cam3"
    by (simp only: i2 i3)
  show ?thesis
    by (rule exI[of _ cam1], rule exI[of _ cam2], rule exI[of _ cam3])
       (intro conjI r1 r2 r3 e f1 c1 f2 c2)
qed

theorem resize_double_then_half_witness:
  "length (vector cam100) = 20 \<and> length (original_vector cam100) = 20
   \<and> (\<exists>cam1 cam2 cam3.
        resize minimize_x0 (Scale (Fin 2)) False cam100 = Inr cam1
      \<and> resize minimize_x0 (Scale (Fin (1 / 2))) False cam1 = Inr cam2
      \<and> resize minimize_x0 (Scale (Fin (1 / 2))) False cam100 = Inr cam3
      \<and> imgsz_of cam2 = imgsz_of cam3
      \<and> f_of cam1 = map2 (*) (f_of cam100) (map2 (/) (imgsz_of cam1) (imgsz_of cam100))
      \<and> c_of cam1 = map2 (*) (c_of cam100) (map2 (/) (imgsz_of cam1) (imgsz_of cam100))
      \<and> f_of cam2 = map2 (*) (f_of cam1) (map2 (/) (imgsz_of cam2) (imgsz_of cam1))
      \<and> c_of cam2 = map2 (*) (c_of cam1) (map2 (/) (imgsz_of cam2) (imgsz_of cam1)))
   \<and> map_sum id (\<lambda>cam. (imgsz_of cam, f_of cam, c_of cam))
        (resize minimize_x0 (Scale (Fin 2)) False cam100)
      = Inr ([Fin 200, Fin 200], [Fin 200, Fin 200], [Fin 0, Fin 0])
   \<and> map_sum id imgsz_of (resize minimize_x0 (Scale (Fin (1 / 2))) False cam100)
      = Inr [Fin 50, Fin 50]"
proof -
  have l: "length (vector cam100) = 20" "length (original_vector cam100) = 20"
    by (simp_all add: cam100_vector)
  have v: "map_sum id (\<lambda>cam. (imgsz_of cam, f_of cam, c_of cam))
        (resize minimize_x0 (Scale (Fin 2)) False cam100)
      = Inr ([Fin 200, Fin 200], [Fin 200, Fin 200], [Fin 0, Fin 0])"
    "map_sum id imgsz_of (resize minimize_x0 (Scale (Fin (1 / 2))) False cam100)
      = Inr [Fin 50, Fin 50]"
    by (simp_all add: resize_unfold cam100_vector)
  show ?thesis
    by (intro conjI l v resize_double_then_half[OF l])
qed

text \<open>
  The claim as stated fails on the camera of the examples: after \<open>resize(2.0)\<close> and
  \<open>resize(0.5)\<close> its image size and focal length are \<open>(50, 50)\<close>, not the \<open>(100, 100)\<close>
  they were.
\<close>

theorem resize_double_then_half_counterexample:
  "imgsz_of cam100 = [Fin 100, Fin 100] \<and> f_of cam100 = [Fin 100, Fin 100]
   \<and> map_sum id (\<lambda>cam. (imgsz_of cam, f_of cam))
       (and_then (resize minimize_x0 (Scale (Fin 2)) False cam100)
          (resize minimize_x0 (Scale (Fin (1 / 2))) False))
     = Inr ([Fin 50, Fin 50], [Fin 50, Fin 50])"
  by (simp add: resize_unfold cam100_vector)

text \<open>
  C10, as amended. When \<open>resize(s)\<close> leaves an image size whose two components are
  finite and not zero, a second \<open>resize(s)\<close> changes nothing: it computes the same new
  size from the original size, divides it by itself and multiplies \<open>f\<close> and \<open>c\<close> by
  one. The camera has 20-element vectors; \<open>s\<close> is any number.
\<close>

theorem resize_scale_idempotent:
  assumes "length (vector cam) = 20" "length (original_vector cam) = 20"
    and "resize m (Scale s) frc cam = Inr cam1"
    and "list_all (\<lambda>n. isfinite n \<and> n \<noteq> Fin 0) (imgsz_of cam1)"
  shows "resize m (Scale s) frc' cam1 = Inr cam1"
proof -
  from length20[OF assms(1)]
  obtain x0 x1 x2 x3 x4 x5 x6 x7 x8 x9 x10 x11 x12 x13 x14 x15 x16 x17 x18 x19 where
    v: "vector cam = [x0, x1, x2, x3, x4, x5, x6, x7, x8, x9, x10, x11, x12, x13, x14, x15,
          x16, x17, x18, x19]"
    by blast
  from length20[OF assms(2)]
  obtain y0 y1 y2 y3 y4 y5 y6 y7 y8 y9 y10 y11 y12 y13 y14 y15 y16 y17 y18 y19 where
    ov: "original_vector cam = [y0, y1, y2, y3, y4, y5, y6, y7, y8, y9, y10, y11, y12, y13,
          y14, y15, y16, y17, y18, y19]"
    by blast
  define A where "A = fl_floor (fl_add (fl_mul s y6) (Fin (1 / 2)))"
  define B where "B = fl_floor (fl_add (fl_mul s y7) (Fin (1 / 2)))"
  have rnd: "fl_round A = A" "fl_round B = B"
    by (simp_all add: A_def B_def)
  from assms(3) have c1: "cam1 = cam\<lparr>vector := [x0, x1, x2, x3, x4, x5, A, B,
      fl_mul x8 (fl_div A x6), fl_mul x9 (fl_div B x7),
      fl_mul x10 (fl_div A x6), fl_mul x11 (fl_div B x7),
      x12, x13, x14, x15, x16, x17, x18, x19]\<rparr>"
    by (auto simp add: resize_unfold v ov A_def[symmetric] B_def[symmetric] rnd
        simp del: fl_round_floor)
  from assms(4) have fin: "isfinite A" "A \<noteq> Fin 0" "isfinite B" "B \<noteq> Fin 0"
    by (simp_all add: c1 camera_getters)
  show ?thesis
    by (simp add: c1 resize_unfold ov A_def[symmetric] B_def[symmetric] rnd
        fl_div_self[OF fin(1,2)] fl_div_self[OF fin(3,4)] del: fl_round_floor)
qed

theorem resize_scale_idempotent_witness:
  "length (vector cam100) = 20 \<and> length (original_vector cam100) = 20
   \<and> resize minimize_x0 (Scale (Fin 2)) False cam100
     = Inr (cam100\<lparr>vector := [Fin 0, Fin 0, Fin 0, Fin 0, Fin 0, Fin 0, Fin 200, Fin 200,
         Fin 200, Fin 200, Fin 0, Fin 0, Fin 0, Fin 0, Fin 0, Fin 0, Fin 0, Fin 0, Fin 0, Fin 0]\<rparr>)
   \<and> resize minimize_x0 (Scale (Fin 2)) False
       (cam100\<lparr>vector := [Fin 0, Fin 0, Fin 0, Fin 0, Fin 0, Fin 0, Fin 200, Fin 200,
         Fin 200, Fin 200, Fin 0, Fin 0, Fin 0, Fin 0, Fin 0, Fin 0, Fin 0, Fin 0, Fin 0, Fin 0]\<rparr>)
     = Inr (cam100\<lparr>vector := [Fin 0, Fin 0, Fin 0, Fin 0, Fin 0, Fin 0, Fin 200, Fin 200,
         Fin 200, Fin 200, Fin 0, Fin 0, Fin 0, Fin 0, Fin 0, Fin 0, Fin 0, Fin 0, Fin 0, Fin 0]\<rparr>)"
  using resize_scale_idempotent [of cam100 minimize_x0 "Fin 2" False
      "cam100\<lparr>vector := [Fin 0, Fin 0, Fin 0, Fin 0, Fin 0, Fin 0, Fin 200, Fin 200,
         Fin 200, Fin 200, Fin 0, Fin 0, Fin 0, Fin 0, Fin 0, Fin 0, Fin 0, Fin 0, Fin 0, Fin 0]\<rparr>"
      False]
  by (simp add: resize_unfold cam100_vector isfinite_def)

text \<open>
  The claim as stated fails for a positive scale factor that rounds the size to zero:
  with \<open>s = 0.001\<close> the first resize of the camera of the examples sets \<open>imgsz\<close> and
  \<open>f\<close> to zero, and the second divides zero by zero and sets \<open>f\<close> to NaN.
\<close>

theorem resize_scale_idempotent_counterexample:
  "map_sum id f_of (resize minimize_x0 (Scale (Fin (1 / 1000))) False cam100)
     = Inr [Fin 0, Fin 0]
   \<and> map_sum id f_of
       (and_then (resize minimize_x0 (Scale (Fin (1 / 1000))) False cam100)
          (resize minimize_x0 (Scale (Fin (1 / 1000))) False))
     = Inr [NaN, NaN]"
  by (simp add: resize_unfold cam100_vector inf_signed_def)

subsection \<open>Projection and inverse projection\<close>

lemma cam_vectors:
  "vector cam_east = [Fin 1, Fin 0, Fin 0, Fin 0, Fin 0, Fin 0, Fin 100, Fin 100, Fin 100, Fin 100,
     Fin 0, Fin 0, Fin 0, Fin 0, Fin 0, Fin 0, Fin 0, Fin 0, Fin 0, Fin 0]"
  "vector cam_radial = [Fin 0, Fin 0, Fin 0, Fin 0, Fin 0, Fin 0, Fin 100, Fin 100, Fin 100, Fin 100,
     Fin 0, Fin 0, Fin (- 1), Fin 0, Fin 0, Fin (- 1), Fin 0, Fin 0, Fin 0, Fin 0]"
  by (simp_all add: cam_east_def cam_radial_def Camera_def set_slice_def Let_def)





lemma fl_div_NaN [simp]: "fl_div x NaN = NaN"
  by (cases x) simp_all





section \<open>Properties of the correspondences\<close>

lemma list_all2_fl_eq_no_nan:
  "list_all (\<lambda>x. \<not> isnan x) b \<Longrightarrow> list_all2 fl_eq a b = (a = b)"
proof (induction b arbitrary: a)
  case Nil
  then show ?case by simp
next
  case (Cons y ys)
  have e: "fl_eq x y = (x = y)" for x
    using Cons.prems by (cases x; cases y) (simp_all add: isnan_def)
  show ?case
    using Cons by (cases a) (simp_all add: e)
qed

lemma and_then_moved:
  "and_then r g = Inl moved_error \<longleftrightarrow>
     r = Inl moved_error \<or> (\<exists>x. r = Inr x \<and> g x = Inl moved_error)"
  by (cases r) (simp_all add: and_then_def)

lemma getitem_not_moved: "getitem xs index \<noteq> Inl moved_error"
  by (simp add: getitem_def moved_error_def split: option.splits)

lemma vstack_not_moved: "vstack xs \<noteq> Inl moved_error"
  by (simp add: vstack_def moved_error_def)

text \<open>
  C7, as amended. For a \<open>Points\<close> or \<open>Lines\<close> correspondence built with
  \<open>directions=True\<close>, \<open>predicted\<close> raises the error "Camera has changed position" if
  and only if some component of the camera's present \<open>xyz\<close> does not compare equal
  (\<open>==\<close>) to the one saved at construction. While the position is unchanged,
  \<open>Points.predicted()\<close> succeeds and returns the projection of the directions;
  \<open>Lines.predicted\<close> may still raise another error. For a saved position without NaN,
  comparing equal is being equal.
\<close>

theorem predicted_raises_when_camera_moved:
  "(Points st0 c uv xyz True corr = Inr pts \<longrightarrow>
      Points_predicted st pts None =
        (if list_all2 fl_eq (xyz_of (st c)) (xyz_of (st0 c))
         then Inr (project (st c) xyz True corr) else Inl moved_error))
   \<and> (Lines h st0 c uvs xyzs True corr step = Inr lns \<longrightarrow>
        (Lines_predicted h st lns index = Inl moved_error
           \<longleftrightarrow> \<not> list_all2 fl_eq (xyz_of (st c)) (xyz_of (st0 c))))
   \<and> (list_all (\<lambda>x. \<not> isnan x) (xyz_of (st0 c)) \<longrightarrow>
        list_all2 fl_eq (xyz_of (st c)) (xyz_of (st0 c)) = (xyz_of (st c) = xyz_of (st0 c)))"
proof (intro conjI impI)
  assume "Points st0 c uv xyz True corr = Inr pts"
  then have p: "pts = \<lparr>pts_cam = c, pts_uv = uv, pts_xyz = xyz, pts_directions = True,
                pts_correction = corr, pts_cam_xyz = xyz_of (st0 c),
                pts_imgsz = imgsz_of (st0 c)\<rparr>"
    by (simp add: Points_def split: if_splits)
  show "Points_predicted st pts None =
        (if list_all2 fl_eq (xyz_of (st c)) (xyz_of (st0 c))
         then Inr (project (st c) xyz True corr) else Inl moved_error)"
    by (simp add: p Points_predicted_def Points_is_static_def getitem_def and_then_def)
next
  assume "Lines h st0 c uvs xyzs True corr step = Inr lns"
  then have l: "lns_cam lns = c" "lns_directions lns" "lns_cam_xyz lns = xyz_of (st0 c)"
    by (auto simp add: Lines_def and_then_def split: sum.splits)
  show "Lines_predicted h st lns index = Inl moved_error
           \<longleftrightarrow> \<not> list_all2 fl_eq (xyz_of (st c)) (xyz_of (st0 c))"
  proof (cases "list_all2 fl_eq (xyz_of (st c)) (xyz_of (st0 c))")
    case True
    then obtain puvs where pr: "Lines_project h st lns = Inr puvs"
      by (simp add: Lines_project_def Lines_is_static_def l Let_def)
    have "Lines_predicted h st lns index \<noteq> Inl moved_error"
      by (auto simp add: Lines_predicted_def pr and_then_moved vstack_not_moved
          Lines_observed_def getitem_not_moved Let_def)
         (simp add: moved_error_def)
    with True show ?thesis by simp
  next
    case False
    then show ?thesis
      by (simp add: Lines_predicted_def Lines_project_def Lines_is_static_def l and_then_def)
  qed
next
  assume "list_all (\<lambda>x. \<not> isnan x) (xyz_of (st0 c))"
  then show "list_all2 fl_eq (xyz_of (st c)) (xyz_of (st0 c)) = (xyz_of (st c) = xyz_of (st0 c))"
    by (rule list_all2_fl_eq_no_nan)
qed

lemma store100_xyz: "xyz_of (store100 c) = [Fin 0, Fin 0, Fin 0]"
  by (simp add: store100_def cam100_vector camera_getters)

theorem predicted_raises_when_camera_moved_witness:
  "Points store100 0 [(Fin 50, Fin 50)] [(Fin 0, Fin 10, Fin 0)] True None
     = Inr \<lparr>pts_cam = 0, pts_uv = [(Fin 50, Fin 50)], pts_xyz = [(Fin 0, Fin 10, Fin 0)],
            pts_directions = True, pts_correction = None,
            pts_cam_xyz = [Fin 0, Fin 0, Fin 0], pts_imgsz = [Fin 100, Fin 100]\<rparr>
   \<and> Points_predicted store100
       \<lparr>pts_cam = 0, pts_uv = [(Fin 50, Fin 50)], pts_xyz = [(Fin 0, Fin 10, Fin 0)],
            pts_directions = True, pts_correction = None,
            pts_cam_xyz = [Fin 0, Fin 0, Fin 0], pts_imgsz = [Fin 100, Fin 100]\<rparr> None
     = Inr (project cam100 [(Fin 0, Fin 10, Fin 0)] True None)
   \<and> Points_predicted (store100(0 := cam_east))
       \<lparr>pts_cam = 0, pts_uv = [(Fin 50, Fin 50)], pts_xyz = [(Fin 0, Fin 10, Fin 0)],
            pts_directions = True, pts_correction = None,
            pts_cam_xyz = [Fin 0, Fin 0, Fin 0], pts_imgsz = [Fin 100, Fin 100]\<rparr> None
     = Inl moved_error
   \<and> Lines helpers_plain store100 0 [[(Fin 0, Fin 0), (Fin 1, Fin 1)]] [] True None None
     = Inr \<lparr>lns_cam = 0, lns_uvs = [[(Fin 0, Fin 0), (Fin 1, Fin 1)]], lns_step = None,
            lns_uvi = [(Fin 0, Fin 0), (Fin 1, Fin 1)], lns_xyzs = [], lns_directions = True,
            lns_correction = None, lns_cam_xyz = [Fin 0, Fin 0, Fin 0],
            lns_imgsz = [Fin 100, Fin 100]\<rparr>
   \<and> Lines_predicted helpers_plain (store100(0 := cam_east))
       \<lparr>lns_cam = 0, lns_uvs = [[(Fin 0, Fin 0), (Fin 1, Fin 1)]], lns_step = None,
            lns_uvi = [(Fin 0, Fin 0), (Fin 1, Fin 1)], lns_xyzs = [], lns_directions = True,
            lns_correction = None, lns_cam_xyz = [Fin 0, Fin 0, Fin 0],
            lns_imgsz = [Fin 100, Fin 100]\<rparr> None
     = Inl moved_error"
  using predicted_raises_when_camera_moved [of store100 0 "[(Fin 50, Fin 50)]"
      "[(Fin 0, Fin 10, Fin 0)]" None _ store100]
    predicted_raises_when_camera_moved [of store100 0 "[(Fin 50, Fin 50)]"
      "[(Fin 0, Fin 10, Fin 0)]" None _ "store100(0 := cam_east)" helpers_plain
      "[[(Fin 0, Fin 0), (Fin 1, Fin 1)]]" "[]" None _ None]
  by (simp add: Points_def Lines_def vstack_def and_then_def store100_xyz)
     (simp add: store100_def cam100_vector cam_vectors camera_getters)

text \<open>
  \<open>Lines.predicted\<close> does not always succeed while the camera stays where it was: with
  no world line to project, \<open>Lines.project\<close> returns the empty list and
  \<open>np.row_stack\<close> raises.
\<close>

theorem lines_predicted_raises_unmoved_counterexample:
  "Lines helpers_plain store100 0 [[(Fin 0, Fin 0), (Fin 1, Fin 1)]] [] True None None
     = Inr \<lparr>lns_cam = 0, lns_uvs = [[(Fin 0, Fin 0), (Fin 1, Fin 1)]], lns_step = None,
            lns_uvi = [(Fin 0, Fin 0), (Fin 1, Fin 1)], lns_xyzs = [], lns_directions = True,
            lns_correction = None, lns_cam_xyz = [Fin 0, Fin 0, Fin 0],
            lns_imgsz = [Fin 100, Fin 100]\<rparr>
   \<and> Lines_predicted helpers_plain store100
       \<lparr>lns_cam = 0, lns_uvs = [[(Fin 0, Fin 0), (Fin 1, Fin 1)]], lns_step = None,
            lns_uvi = [(Fin 0, Fin 0), (Fin 1, Fin 1)], lns_xyzs = [], lns_directions = True,
            lns_correction = None, lns_cam_xyz = [Fin 0, Fin 0, Fin 0],
            lns_imgsz = [Fin 100, Fin 100]\<rparr> None
     = Inl (ValueError ''need at least one array to concatenate'')"
  by (simp add: Lines_def Lines_predicted_def Lines_project_def Lines_is_static_def vstack_def
      and_then_def store100_xyz Let_def)
     (simp add: store100_def cam100_vector camera_getters)

section \<open>Properties of RANSAC\<close>

text \<open>
  With a model whose \<open>fit\<close> always fails and a sample smaller than the data, a run of
  the loop that returns did not start below the iteration budget: by induction on the
  runs that return.
\<close>

lemma ransac_loop_never_fits_aux:
  assumes "ransac_loop M sh args st = Some r"
  shows "(\<forall>index. model_fit M index = None) \<longrightarrow> fst args < int (model_data_size M)
         \<longrightarrow> \<not> fst (snd st) < snd (snd (snd args))"
proof (rule ransac_loop.raw_induct[where P = "\<lambda>M sh args st r.
         (\<forall>index. model_fit M index = None) \<longrightarrow> fst args < int (model_data_size M)
         \<longrightarrow> \<not> fst (snd st) < snd (snd (snd args))", OF _ assms], goal_cases)
  case (1 lp M sh args st r)
  show ?case
  proof (intro impI notI)
    assume nf: "\<forall>index. model_fit M index = None"
      and ss: "fst args < int (model_data_size M)"
      and lt: "fst (snd st) < snd (snd (snd args))"
    obtain sample_size max_error min_inliers iterations where
      a: "args = (sample_size, max_error, min_inliers, iterations)"
      by (cases args) auto
    obtain t i params err inlier_idx where s: "st = (t, i, params, err, inlier_idx)"
      by (cases st) auto
    from 1(2) nf ss lt have "lp M sh args (t + 1, i, params, err, inlier_idx) = Some r"
      by (simp add: a s ransac_sample_def)
    from 1(1)[OF this] nf ss lt show False by (simp add: a s)
  qed
qed

lemma ransac_never_returns_when_fit_fails:
  assumes "\<forall>index. model_fit M index = None"
    and "sample_size < int (model_data_size M)" and "0 < iterations"
  shows "ransac M shuffle sample_size max_error min_inliers iterations = None"
proof -
  have "ransac_loop M shuffle (sample_size, max_error, min_inliers, iterations)
             (0, 0, None, PInf, None) = None"
  proof (cases "ransac_loop M shuffle (sample_size, max_error, min_inliers, iterations)
             (0, 0, None, PInf, None)")
    case (Some r)
    from ransac_loop_never_fits_aux[OF this] assms show ?thesis by simp
  qed simp
  then show ?thesis by (simp add: ransac_def)
qed

text \<open>
  C2. The claim is that \<open>ransac\<close> returns after at most \<open>iterations\<close> draws also when
  \<open>fit\<close> fails. The code does not: a failed fit takes a \<open>continue\<close> that skips
  \<open>i += 1\<close>, so with a model whose \<open>fit\<close> always fails (5 data points,
  \<open>sample_size = 2\<close>, \<open>iterations = 1\<close>) the loop never ends.
\<close>

theorem ransac_never_returns_example:
  "ransac model_never_fits shuffle_id 2 (Fin 1) 1 1 = None"
  by (rule ransac_never_returns_when_fit_fails) (simp_all add: model_never_fits_def)




















end
